theory Spec2Isabelle
  imports Main "HOL-Library.Word"
begin

unbundle bit_operations_syntax

section \<open>The LCD1602 driver over a PCF8574 expander (package lcd)\<close>

text \<open>
  The driver of \<^verbatim>\<open>pkg/lcd\<close> in its variant with font selection and display-control
  state (the file holding \<^verbatim>\<open>validateInputs\<close>). Go's \<^verbatim>\<open>byte\<close> is an 8-bit word, Go's
  \<^verbatim>\<open>int\<close> is an integer (the driver only compares such values and converts one of
  them to \<^verbatim>\<open>byte\<close>, which keeps the low eight bits whatever the width of
  \<^verbatim>\<open>int\<close>), and a \<^verbatim>\<open>rune\<close> is a 32-bit word.
\<close>

type_synonym byte = "8 word"
type_synonym rune = "32 word"

subsection \<open>Constants\<close>

definition DefaultDevice :: string where "DefaultDevice = ''/dev/i2c-1''"
definition DefaultAddress :: int where "DefaultAddress = 0x27"

definition lcdRegisterCommand :: byte where "lcdRegisterCommand = 0x0"
definition lcdRegisterData :: byte where "lcdRegisterData = 0x1"
definition lcdWriteMode :: byte where "lcdWriteMode = 0x0"
definition lcdEnableBit :: byte where "lcdEnableBit = 0x4"
definition lcdBacklightOn :: byte where "lcdBacklightOn = 0x08"
definition lcdBacklightOff :: byte where "lcdBacklightOff = 0x00"

definition lcdClear :: byte where "lcdClear = 0x01"
definition lcdHome :: byte where "lcdHome = 0x02"

definition lcdEntryModeSet :: byte where "lcdEntryModeSet = 0x04"
definition lcdEntryModeIDIncr :: byte where "lcdEntryModeIDIncr = 0x02"
definition lcdEntryModeIDDecr :: byte where "lcdEntryModeIDDecr = 0x00"
definition lcdEntryModeShiftEnable :: byte where "lcdEntryModeShiftEnable = 0x01"
definition lcdEntryModeShiftDisable :: byte where "lcdEntryModeShiftDisable = 0x00"

definition lcdFuncSet :: byte where "lcdFuncSet = 0x20"
definition lcdDL4Bit :: byte where "lcdDL4Bit = 0x00"
definition lcdNOneLine :: byte where "lcdNOneLine = 0x00"
definition lcdNTwoLine :: byte where "lcdNTwoLine = 0x08"
definition lcdF5x8Dot :: byte where "lcdF5x8Dot = 0x00"
definition lcdF5x10Dot :: byte where "lcdF5x10Dot = 0x04"

definition lcdDisplayCtrl :: byte where "lcdDisplayCtrl = 0x08"
definition lcdDisplayOn :: byte where "lcdDisplayOn = 0x04"
definition lcdDisplayOff :: byte where "lcdDisplayOff = 0x00"
definition lcdDisplayCursorOn :: byte where "lcdDisplayCursorOn = 0x02"
definition lcdDisplayCursorOff :: byte where "lcdDisplayCursorOff = 0x00"
definition lcdDisplayBlinkOn :: byte where "lcdDisplayBlinkOn = 0x01"
definition lcdDisplayBlinkOff :: byte where "lcdDisplayBlinkOff = 0x00"

definition lcdCGRAMAddrBase :: byte where "lcdCGRAMAddrBase = 0x40"
definition lcdDDRAMAddrBase :: byte where "lcdDDRAMAddrBase = 0x80"

definition Font5x8 :: byte where "Font5x8 = lcdF5x8Dot"
definition Font5x10 :: byte where "Font5x10 = lcdF5x10Dot"

subsection \<open>Errors\<close>

text \<open>
  The driver builds its errors with \<^verbatim>\<open>fmt.Errorf\<close>; each construction site is one
  constructor here, carrying the value the message prints. \<open>TransportFault\<close> is an error
  of the I2C library, \<open>I2CWriteError\<close> is \<^verbatim>\<open>busWrite\<close>'s wrapping of it and
  \<open>InvalidInputs\<close> is \<^verbatim>\<open>New\<close>'s wrapping of a validation error.
\<close>

datatype error =
    InvalidCols int
  | InvalidRows int
  | InvalidFont byte
  | Font5x10Rows int
  | InvalidInputs error
  | InvalidCol int
  | InvalidRow int
  | TransportFault
  | I2CWriteError error

text \<open>The two kinds of failure the specification names.\<close>

datatype error_kind = InvalidArgument | IOError

fun kind_of :: "error \<Rightarrow> error_kind" where
  "kind_of (InvalidCols c) = InvalidArgument"
| "kind_of (InvalidRows r) = InvalidArgument"
| "kind_of (InvalidFont f) = InvalidArgument"
| "kind_of (Font5x10Rows r) = InvalidArgument"
| "kind_of (InvalidInputs e) = kind_of e"
| "kind_of (InvalidCol c) = InvalidArgument"
| "kind_of (InvalidRow r) = InvalidArgument"
| "kind_of TransportFault = IOError"
| "kind_of (I2CWriteError e) = IOError"

subsection \<open>The transport and the clock\<close>

text \<open>
  The I2C library and \<^verbatim>\<open>time.Sleep\<close> are outside the repository. The world the driver
  acts on records every call made on the transport, in order (\<open>wire\<close>), the time
  slept in microseconds (\<open>slept\<close>), and the outcomes of the coming transport calls
  (\<open>faults\<close>: the head is \<open>True\<close> when the next call fails; once the list is used up
  every call succeeds). A failing write is recorded on the wire as well: the call was
  made.
\<close>

datatype event = Opened string int | Wrote byte

record world =
  wire :: "event list"
  faults :: "bool list"
  slept :: nat

type_synonym step = "world \<Rightarrow> error option \<times> world"

definition next_fails :: "world \<Rightarrow> bool" where
  "next_fails w = (case faults w of [] \<Rightarrow> False | f # fs \<Rightarrow> f)"

definition i2c_Open :: "string \<Rightarrow> int \<Rightarrow> step" where
  "i2c_Open bus address w =
     (if next_fails w then Some TransportFault else None,
      w\<lparr>wire := wire w @ [Opened bus address], faults := tl (faults w)\<rparr>)"

definition i2c_Write :: "byte \<Rightarrow> step" where
  "i2c_Write data w =
     (if next_fails w then Some TransportFault else None,
      w\<lparr>wire := wire w @ [Wrote data], faults := tl (faults w)\<rparr>)"

definition sleep :: "nat \<Rightarrow> step" where
  "sleep us w = (None, w\<lparr>slept := slept w + us\<rparr>)"

text \<open>
  \<open>andThen a b\<close> is Go's \<^verbatim>\<open>if err := a; err != nil { return err }\<close> followed by
  \<^verbatim>\<open>b\<close>: the second step runs only when the first returned no error.
\<close>

definition andThen :: "step \<Rightarrow> step \<Rightarrow> step" where
  "andThen a b w = (case a w of (Some e, w') \<Rightarrow> (Some e, w') | (None, w') \<Rightarrow> b w')"

definition done_ok :: step where
  "done_ok w = (None, w)"

subsection \<open>The handle\<close>

text \<open>The struct \<^verbatim>\<open>LCD\<close>; its \<^verbatim>\<open>i2c\<close> field is the transport of the world.\<close>

record LCD =
  backlight :: byte
  cols :: int
  rows :: int
  font :: byte
  displayState :: byte

subsection \<open>Framing: busWrite, writeByte, send\<close>

definition busWrite :: "LCD \<Rightarrow> byte \<Rightarrow> step" where
  "busWrite lcd data w =
     (case i2c_Write data w of
        (Some err, w') \<Rightarrow> (Some (I2CWriteError err), w')
      | (None, w') \<Rightarrow> (None, w'))"

definition writeByte :: "LCD \<Rightarrow> byte \<Rightarrow> byte \<Rightarrow> step" where
  "writeByte lcd val rs =
     (let data = rs OR lcdWriteMode OR lcdEnableBit OR backlight lcd;
          data1 = data OR push_bit 4 val;
          data2 = data1 AND NOT lcdEnableBit
      in andThen (busWrite lcd data1) (andThen (busWrite lcd data2) (sleep 50)))"

definition send :: "LCD \<Rightarrow> byte \<Rightarrow> byte \<Rightarrow> step" where
  "send lcd val rs =
     (let high = drop_bit 4 val;
          low = val AND 0x0F
      in andThen (writeByte lcd high rs) (writeByte lcd low rs))"

definition sendCommand :: "LCD \<Rightarrow> byte \<Rightarrow> step" where
  "sendCommand lcd command = send lcd command lcdRegisterCommand"

definition sendData :: "LCD \<Rightarrow> byte \<Rightarrow> step" where
  "sendData lcd data = send lcd data lcdRegisterData"

subsection \<open>Construction\<close>

definition validateInputs :: "int \<Rightarrow> int \<Rightarrow> byte \<Rightarrow> error option" where
  "validateInputs c r f =
     (if c \<noteq> 16 \<and> c \<noteq> 20 then Some (InvalidCols c)
      else if r \<noteq> 1 \<and> r \<noteq> 2 \<and> r \<noteq> 4 then Some (InvalidRows r)
      else if f \<noteq> Font5x8 \<and> f \<noteq> Font5x10 then Some (InvalidFont f)
      else if f = Font5x10 \<and> r \<noteq> 1 then Some (Font5x10Rows r)
      else None)"

definition Clear :: "LCD \<Rightarrow> step" where
  "Clear lcd = andThen (sendCommand lcd lcdClear) (sleep 2000)"

definition Home :: "LCD \<Rightarrow> step" where
  "Home lcd = andThen (sendCommand lcd lcdHome) (sleep 2000)"

definition init :: "LCD \<Rightarrow> step" where
  "init lcd =
     andThen (sleep 50000)
    (andThen (sendCommand lcd 0x03)
    (andThen (sleep 5000)
    (andThen (sendCommand lcd 0x03)
    (andThen (sleep 100)
    (andThen (sendCommand lcd 0x03)
    (andThen (sendCommand lcd 0x02)
    (let lineMode = (if rows lcd > 1 then lcdNTwoLine else lcdNOneLine) in
     andThen (sendCommand lcd (lcdFuncSet OR lcdDL4Bit OR lineMode OR font lcd))
    (andThen (sendCommand lcd (lcdDisplayCtrl OR displayState lcd))
    (andThen (sendCommand lcd
                (lcdEntryModeSet OR lcdEntryModeIDIncr OR lcdEntryModeShiftDisable))
    (andThen (Clear lcd) done_ok))))))))))"

definition New ::
  "string \<Rightarrow> int \<Rightarrow> int \<Rightarrow> int \<Rightarrow> byte \<Rightarrow> bool \<Rightarrow> world \<Rightarrow> (error + LCD) \<times> world" where
  "New bus address c r f isBacklightOn w =
     (case validateInputs c r f of
        Some err \<Rightarrow> (Inl (InvalidInputs err), w)
      | None \<Rightarrow>
         (case i2c_Open bus address w of
            (Some err, w1) \<Rightarrow> (Inl err, w1)
          | (None, w1) \<Rightarrow>
             (let lcd = \<lparr>backlight = 0, cols = c, rows = r, font = f,
                         displayState =
                           lcdDisplayOn OR lcdDisplayCursorOff OR lcdDisplayBlinkOff\<rparr>
              in case init lcd w1 of
                   (Some err, w2) \<Rightarrow> (Inl err, w2)
                 | (None, w2) \<Rightarrow>
                     (Inr (if isBacklightOn then lcd\<lparr>backlight := lcdBacklightOn\<rparr> else lcd),
                      w2))))"

subsection \<open>Cursor, text and custom characters\<close>

text \<open>
  \<^verbatim>\<open>UploadCustomChar\<close> takes a \<^verbatim>\<open>[8]byte\<close>; the array is a list here and the loop over
  its indices is the recursion of \<open>sendAll\<close>.
\<close>

primrec sendAll :: "LCD \<Rightarrow> byte list \<Rightarrow> step" where
  "sendAll lcd [] = done_ok"
| "sendAll lcd (b # bs) = andThen (sendData lcd b) (sendAll lcd bs)"

definition UploadCustomChar :: "LCD \<Rightarrow> byte \<Rightarrow> byte list \<Rightarrow> step" where
  "UploadCustomChar lcd location char =
     (let location1 = location AND 0x7;
          data = lcdCGRAMAddrBase OR push_bit 3 location1
      in andThen (sendCommand lcd data) (sendAll lcd char))"

definition SetCursor :: "LCD \<Rightarrow> int \<Rightarrow> int \<Rightarrow> step" where
  "SetCursor lcd row col w =
     (if col < 0 \<or> col \<ge> cols lcd then (Some (InvalidCol col), w)
      else if row = 0 then sendCommand lcd (lcdDDRAMAddrBase + word_of_int col) w
      else if row = 1 then sendCommand lcd (lcdDDRAMAddrBase + 0x40 + word_of_int col) w
      else if row = 2 then sendCommand lcd (lcdDDRAMAddrBase + 0x14 + word_of_int col) w
      else if row = 3 then sendCommand lcd (lcdDDRAMAddrBase + 0x54 + word_of_int col) w
      else (Some (InvalidRow row), w))"

text \<open>
  \<^verbatim>\<open>Write\<close> ranges over the runes of its text and sends \<^verbatim>\<open>byte(char)\<close>, the low eight
  bits of each. The text is given as the runes the \<^verbatim>\<open>range\<close> yields; for text within
  ASCII these are its bytes (\<open>ascii\<close>).
\<close>

primrec Write :: "LCD \<Rightarrow> rune list \<Rightarrow> step" where
  "Write lcd [] = done_ok"
| "Write lcd (c # cs) = andThen (sendData lcd (ucast c)) (Write lcd cs)"

definition ascii :: "string \<Rightarrow> rune list" where
  "ascii s = map (\<lambda>c. of_nat (of_char c)) s"

definition Print :: "LCD \<Rightarrow> rune list \<Rightarrow> int \<Rightarrow> int \<Rightarrow> step" where
  "Print lcd text row col = andThen (SetCursor lcd row col) (Write lcd text)"

definition WriteRAW :: "LCD \<Rightarrow> byte \<Rightarrow> step" where
  "WriteRAW lcd raw = andThen (sendData lcd raw) done_ok"

definition PrintRAW :: "LCD \<Rightarrow> byte \<Rightarrow> int \<Rightarrow> int \<Rightarrow> step" where
  "PrintRAW lcd raw row col = andThen (SetCursor lcd row col) (WriteRAW lcd raw)"

subsection \<open>Backlight and display control\<close>

text \<open>
  A method that assigns a field of its receiver returns the handle as it is left,
  also when the write that follows fails.
\<close>

type_synonym mutator = "LCD \<Rightarrow> world \<Rightarrow> error option \<times> LCD \<times> world"

definition withHandle :: "LCD \<Rightarrow> step \<Rightarrow> world \<Rightarrow> error option \<times> LCD \<times> world" where
  "withHandle lcd s w = (case s w of (err, w') \<Rightarrow> (err, lcd, w'))"

definition EnableBacklight :: mutator where
  "EnableBacklight lcd =
     (let lcd1 = lcd\<lparr>backlight := lcdBacklightOn\<rparr>
      in withHandle lcd1 (busWrite lcd1 (backlight lcd1)))"

definition DisableBacklight :: mutator where
  "DisableBacklight lcd =
     (let lcd1 = lcd\<lparr>backlight := lcdBacklightOff\<rparr>
      in withHandle lcd1 (busWrite lcd1 (backlight lcd1)))"

definition ToggleBacklight :: mutator where
  "ToggleBacklight lcd =
     (if backlight lcd = lcdBacklightOff then EnableBacklight lcd else DisableBacklight lcd)"

definition DisplayOn :: mutator where
  "DisplayOn lcd =
     (let lcd1 = lcd\<lparr>displayState := displayState lcd OR lcdDisplayOn\<rparr>
      in withHandle lcd1 (sendCommand lcd1 (lcdDisplayCtrl OR displayState lcd1)))"

definition DisplayOff :: mutator where
  "DisplayOff lcd =
     (let lcd1 = lcd\<lparr>displayState := displayState lcd AND NOT lcdDisplayOn\<rparr>
      in withHandle lcd1 (sendCommand lcd1 (lcdDisplayCtrl OR displayState lcd1)))"

definition ToggleDisplay :: mutator where
  "ToggleDisplay lcd =
     (if displayState lcd AND lcdDisplayOn = lcdDisplayOn then DisplayOff lcd
      else DisplayOn lcd)"

definition CursorOn :: mutator where
  "CursorOn lcd =
     (let lcd1 = lcd\<lparr>displayState := displayState lcd OR lcdDisplayCursorOn\<rparr>
      in withHandle lcd1 (sendCommand lcd1 (lcdDisplayCtrl OR displayState lcd1)))"

definition CursorOff :: mutator where
  "CursorOff lcd =
     (let lcd1 = lcd\<lparr>displayState := displayState lcd AND NOT lcdDisplayCursorOn\<rparr>
      in withHandle lcd1 (sendCommand lcd1 (lcdDisplayCtrl OR displayState lcd1)))"

definition ToggleCursor :: mutator where
  "ToggleCursor lcd =
     (if displayState lcd AND lcdDisplayCursorOn = lcdDisplayCursorOn then CursorOff lcd
      else CursorOn lcd)"

definition BlinkOn :: mutator where
  "BlinkOn lcd =
     (let lcd1 = lcd\<lparr>displayState := displayState lcd OR lcdDisplayBlinkOn\<rparr>
      in withHandle lcd1 (sendCommand lcd1 (lcdDisplayCtrl OR displayState lcd1)))"

definition BlinkOff :: mutator where
  "BlinkOff lcd =
     (let lcd1 = lcd\<lparr>displayState := displayState lcd AND NOT lcdDisplayBlinkOn\<rparr>
      in withHandle lcd1 (sendCommand lcd1 (lcdDisplayCtrl OR displayState lcd1)))"

definition ToggleBlink :: mutator where
  "ToggleBlink lcd =
     (if displayState lcd AND lcdDisplayBlinkOn = lcdDisplayBlinkOn then BlinkOff lcd
      else BlinkOn lcd)"

subsection \<open>Describing what goes over the wire\<close>

text \<open>
  \<open>quiet w\<close>: no transport call fails from \<open>w\<close> on. \<open>emit bs us w\<close> is \<open>w\<close> after
  the writes \<open>bs\<close> and \<open>us\<close> microseconds of sleep. \<open>since w w'\<close> are the transport
  calls made between \<open>w\<close> and \<open>w'\<close>, and \<open>written\<close> keeps the bytes written among them.
\<close>

definition quiet :: "world \<Rightarrow> bool" where
  "quiet w = (True \<notin> set (faults w))"

definition emit :: "byte list \<Rightarrow> nat \<Rightarrow> world \<Rightarrow> world" where
  "emit bs us w =
     w\<lparr>wire := wire w @ map Wrote bs, faults := drop (length bs) (faults w),
       slept := slept w + us\<rparr>"

definition since :: "world \<Rightarrow> world \<Rightarrow> event list" where
  "since w w' = drop (length (wire w)) (wire w')"

fun written :: "event list \<Rightarrow> byte list" where
  "written [] = []"
| "written (Wrote b # es) = b # written es"
| "written (Opened bus address # es) = written es"

text \<open>
  The two transport bytes of one nibble transfer, as the specification words them: the
  byte \<open>backlight | rs | enable | (nibble << 4)\<close>, then the same byte with the enable
  bit cleared; and the four bytes of one framed byte, high nibble first.
\<close>

definition nibble_writes :: "byte \<Rightarrow> byte \<Rightarrow> byte \<Rightarrow> byte list" where
  "nibble_writes bl rs n =
     [bl OR rs OR lcdEnableBit OR push_bit 4 n,
      (bl OR rs OR lcdEnableBit OR push_bit 4 n) AND NOT lcdEnableBit]"

definition byte_writes :: "byte \<Rightarrow> byte \<Rightarrow> byte \<Rightarrow> byte list" where
  "byte_writes bl rs v = nibble_writes bl rs (drop_bit 4 v) @ nibble_writes bl rs (v AND 0x0F)"

text \<open>
  The initialization sequence as the specification documents it, backlight off: three
  transfers of the nibble 3, one of the nibble 2, then the four framed commands.
\<close>

definition documented_init :: "int \<Rightarrow> byte \<Rightarrow> byte list" where
  "documented_init r f =
     nibble_writes 0 lcdRegisterCommand 0x3 @
     nibble_writes 0 lcdRegisterCommand 0x3 @
     nibble_writes 0 lcdRegisterCommand 0x3 @
     nibble_writes 0 lcdRegisterCommand 0x2 @
     byte_writes 0 lcdRegisterCommand
       (lcdFuncSet OR lcdDL4Bit OR (if r > 1 then lcdNTwoLine else lcdNOneLine) OR f) @
     byte_writes 0 lcdRegisterCommand
       (lcdDisplayCtrl OR lcdDisplayOn OR lcdDisplayCursorOff OR lcdDisplayBlinkOff) @
     byte_writes 0 lcdRegisterCommand
       (lcdEntryModeSet OR lcdEntryModeIDIncr OR lcdEntryModeShiftDisable) @
     byte_writes 0 lcdRegisterCommand lcdClear"

text \<open>Steps that only write bytes satisfying \<open>P\<close>, and steps that fail only with I/O errors.\<close>

definition writes_only :: "(byte \<Rightarrow> bool) \<Rightarrow> step \<Rightarrow> bool" where
  "writes_only P s =
     (\<forall>w. \<exists>bs. wire (snd (s w)) = wire w @ map Wrote bs \<and> list_all P bs)"

definition io_errors_only :: "step \<Rightarrow> bool" where
  "io_errors_only s = (\<forall>w e. fst (s w) = Some e \<longrightarrow> kind_of e = IOError)"

text \<open>
  Steps whose writes are a prefix of the list \<open>bs\<close>, and the whole of it when they
  return no error.
\<close>

definition writes_prefix_of :: "byte list \<Rightarrow> step \<Rightarrow> bool" where
  "writes_prefix_of bs s =
     (\<forall>w. \<exists>k \<le> length bs. wire (snd (s w)) = wire w @ map Wrote (take k bs) \<and>
            (fst (s w) = None \<longrightarrow> k = length bs))"

text \<open>The base DDRAM address of a row, as the specification tabulates it.\<close>

definition baseAddress :: "int \<Rightarrow> byte" where
  "baseAddress row = (if row = 0 then 0x80 else if row = 1 then 0xC0
                      else if row = 2 then 0x94 else 0xD4)"

text \<open>A world in which nothing has happened yet and no call will fail.\<close>

definition fresh :: world where
  "fresh = \<lparr>wire = [], faults = [], slept = 0\<rparr>"

text \<open>
  The command bytes \<^verbatim>\<open>init\<close> passes to \<^verbatim>\<open>sendCommand\<close>, in order, and the bytes
  a list of values puts on the wire when each is framed by \<^verbatim>\<open>send\<close>.
\<close>

definition init_commands :: "LCD \<Rightarrow> byte list" where
  "init_commands lcd =
     [0x03, 0x03, 0x03, 0x02,
      lcdFuncSet OR lcdDL4Bit OR (if rows lcd > 1 then lcdNTwoLine else lcdNOneLine) OR font lcd,
      lcdDisplayCtrl OR displayState lcd,
      lcdEntryModeSet OR lcdEntryModeIDIncr OR lcdEntryModeShiftDisable,
      lcdClear]"

definition framed :: "byte \<Rightarrow> byte \<Rightarrow> byte list \<Rightarrow> byte list" where
  "framed bl rs vs = concat (map (byte_writes bl rs) vs)"

section \<open>Basic facts\<close>

lemmas lcd_consts =
  lcdRegisterCommand_def lcdRegisterData_def lcdWriteMode_def lcdEnableBit_def
  lcdBacklightOn_def lcdBacklightOff_def lcdClear_def lcdHome_def
  lcdEntryModeSet_def lcdEntryModeIDIncr_def lcdEntryModeIDDecr_def
  lcdEntryModeShiftEnable_def lcdEntryModeShiftDisable_def
  lcdFuncSet_def lcdDL4Bit_def lcdNOneLine_def lcdNTwoLine_def lcdF5x8Dot_def lcdF5x10Dot_def
  lcdDisplayCtrl_def lcdDisplayOn_def lcdDisplayOff_def lcdDisplayCursorOn_def
  lcdDisplayCursorOff_def lcdDisplayBlinkOn_def lcdDisplayBlinkOff_def
  lcdCGRAMAddrBase_def lcdDDRAMAddrBase_def Font5x8_def Font5x10_def

subsection \<open>Bytes, bit by bit\<close>

lemma below_eight: "n < 8 \<Longrightarrow> n \<in> {0, 1, 2, 3, 4, 5, 6, 7::nat}"
  by auto

lemma byte_eqI:
  fixes a b :: byte
  assumes "bit a 0 = bit b 0" "bit a 1 = bit b 1" "bit a 2 = bit b 2" "bit a 3 = bit b 3"
    "bit a 4 = bit b 4" "bit a 5 = bit b 5" "bit a 6 = bit b 6" "bit a 7 = bit b 7"
  shows "a = b"
proof (rule bit_word_eqI)
  fix n assume "n < LENGTH(8)"
  then have "n \<in> {0, 1, 2, 3, 4, 5, 6, 7::nat}"
    by (intro below_eight) simp
  then show "bit a n = bit b n"
    using assms by auto
qed

lemma byte_bit_high: "8 \<le> k \<Longrightarrow> \<not> bit (v::byte) k"
  using bit_imp_le_length [of v k] by auto

subsection \<open>A transport that does not fail\<close>

lemma quiet_emit: "quiet w \<Longrightarrow> quiet (emit bs us w)"
  by (auto simp: quiet_def emit_def dest: in_set_dropD)

lemma quiet_fresh: "quiet fresh"
  by (simp add: quiet_def fresh_def)

lemma wire_fresh: "wire fresh = []"
  by (simp add: fresh_def)

lemma emit_emit: "emit bs2 us2 (emit bs1 us1 w) = emit (bs1 @ bs2) (us1 + us2) w"
  by (simp add: emit_def add.commute add.assoc)

lemma wire_emit: "wire (emit bs us w) = wire w @ map Wrote bs"
  by (simp add: emit_def)

lemma quiet_next: "quiet w \<Longrightarrow> \<not> next_fails w"
  by (auto simp: quiet_def next_fails_def split: list.splits)

lemma busWrite_quiet: "quiet w \<Longrightarrow> busWrite lcd b w = (None, emit [b] 0 w)"
  by (simp add: busWrite_def i2c_Write_def quiet_next emit_def drop_Suc)

lemma sleep_emit: "sleep us w = (None, emit [] us w)"
  by (simp add: sleep_def emit_def)

lemma writeByte_quiet:
  "quiet w \<Longrightarrow> writeByte lcd n rs w = (None, emit (nibble_writes (backlight lcd) rs n) 50 w)"
  by (simp add: writeByte_def Let_def andThen_def busWrite_quiet quiet_emit sleep_emit emit_emit
      nibble_writes_def lcdWriteMode_def ac_simps)

lemma send_quiet:
  "quiet w \<Longrightarrow> send lcd v rs w = (None, emit (byte_writes (backlight lcd) rs v) 100 w)"
  by (simp add: send_def Let_def andThen_def writeByte_quiet quiet_emit emit_emit byte_writes_def)

lemma sendCommand_quiet:
  "quiet w \<Longrightarrow>
   sendCommand lcd c w = (None, emit (byte_writes (backlight lcd) lcdRegisterCommand c) 100 w)"
  by (simp add: sendCommand_def send_quiet)

lemma sendData_quiet:
  "quiet w \<Longrightarrow>
   sendData lcd d w = (None, emit (byte_writes (backlight lcd) lcdRegisterData d) 100 w)"
  by (simp add: sendData_def send_quiet)

subsection \<open>Any transport\<close>

lemma busWrite_wire: "wire (snd (busWrite lcd b w)) = wire w @ [Wrote b]"
  by (simp add: busWrite_def i2c_Write_def split: prod.splits option.splits)

lemma busWrite_result:
  "fst (busWrite lcd b w) = (if next_fails w then Some (I2CWriteError TransportFault) else None)"
  by (simp add: busWrite_def i2c_Write_def)

lemma length_byte_writes: "length (byte_writes bl rs v) = 4"
  by (simp add: byte_writes_def nibble_writes_def)

lemma prefix_andThen:
  assumes "writes_prefix_of xs a" "writes_prefix_of ys b"
  shows "writes_prefix_of (xs @ ys) (andThen a b)"
  unfolding writes_prefix_of_def
proof
  fix w
  from assms(1) obtain k where k: "k \<le> length xs"
    "wire (snd (a w)) = wire w @ map Wrote (take k xs)" "fst (a w) = None \<longrightarrow> k = length xs"
    unfolding writes_prefix_of_def by blast
  show "\<exists>n \<le> length (xs @ ys). wire (snd (andThen a b w)) = wire w @ map Wrote (take n (xs @ ys)) \<and>
          (fst (andThen a b w) = None \<longrightarrow> n = length (xs @ ys))"
  proof (cases "fst (a w)")
    case None
    then have r: "andThen a b w = b (snd (a w))"
      by (cases "a w") (simp add: andThen_def)
    from assms(2) obtain j where j: "j \<le> length ys"
      "wire (snd (b (snd (a w)))) = wire (snd (a w)) @ map Wrote (take j ys)"
      "fst (b (snd (a w))) = None \<longrightarrow> j = length ys"
      unfolding writes_prefix_of_def by blast
    from None k have kk: "k = length xs" by simp
    show ?thesis
      using j by (intro exI [of _ "length xs + j"]) (simp add: r k(2) kk)
  next
    case (Some e)
    then have "andThen a b w = a w"
      by (cases "a w") (simp add: andThen_def)
    with k Some show ?thesis
      by (intro exI [of _ k]) simp
  qed
qed

lemma prefix_busWrite: "writes_prefix_of [b] (busWrite lcd b)"
  unfolding writes_prefix_of_def
  by (intro allI exI [of _ 1]) (simp add: busWrite_wire)

lemma prefix_sleep: "writes_prefix_of [] (sleep us)"
  unfolding writes_prefix_of_def by (simp add: sleep_def)

lemma prefix_writeByte:
  "writes_prefix_of (nibble_writes (backlight lcd) rs n) (writeByte lcd n rs)"
proof -
  have "writes_prefix_of
          ([(rs OR lcdWriteMode OR lcdEnableBit OR backlight lcd) OR push_bit 4 n] @
           [((rs OR lcdWriteMode OR lcdEnableBit OR backlight lcd) OR push_bit 4 n)
              AND NOT lcdEnableBit] @ [])
          (writeByte lcd n rs)"
    unfolding writeByte_def Let_def
    by (intro prefix_andThen prefix_busWrite prefix_sleep)
  then show ?thesis
    by (simp add: nibble_writes_def lcdWriteMode_def ac_simps)
qed

lemma prefix_send: "writes_prefix_of (byte_writes (backlight lcd) rs v) (send lcd v rs)"
  unfolding send_def Let_def byte_writes_def
  by (intro prefix_andThen prefix_writeByte)

lemma send_any_transport:
  "\<exists>k \<in> {1, 2, 3, 4}.
      since w (snd (send lcd v rs w)) = map Wrote (take k (byte_writes (backlight lcd) rs v)) \<and>
      (fst (send lcd v rs w) = None \<longrightarrow> k = 4)"
proof -
  from prefix_send [of lcd rs v] obtain k where k: "k \<le> 4"
    "wire (snd (send lcd v rs w)) = wire w @ map Wrote (take k (byte_writes (backlight lcd) rs v))"
    "fst (send lcd v rs w) = None \<longrightarrow> k = 4"
    unfolding writes_prefix_of_def by (auto simp: length_byte_writes)
  have "k \<noteq> 0"
  proof
    assume "k = 0"
    with k(3) have e: "fst (send lcd v rs w) \<noteq> None" by auto
    from \<open>k = 0\<close> k(2) have "wire (snd (send lcd v rs w)) = wire w" by simp
    moreover have "wire (snd (send lcd v rs w)) \<noteq> wire w"
      by (auto simp: send_def Let_def andThen_def writeByte_def busWrite_def i2c_Write_def
          sleep_def split: prod.splits option.splits if_splits)
    ultimately show False by simp
  qed
  with k(1) have "k \<in> {1, 2, 3, 4}" by auto
  with k(2,3) show ?thesis by (auto simp: since_def)
qed

section \<open>Framing\<close>

lemma frame_masks:
  fixes b n rs bl :: byte
  assumes rs: "rs \<in> {lcdRegisterCommand, lcdRegisterData}"
    and bl: "bl \<in> {lcdBacklightOff, lcdBacklightOn}"
    and b: "b = bl OR rs OR lcdEnableBit OR push_bit 4 n \<or>
         b = (bl OR rs OR lcdEnableBit OR push_bit 4 n) AND NOT lcdEnableBit"
  shows "b AND 0x01 = rs \<and> b AND 0x02 = 0 \<and> b AND 0x08 = bl"
proof -
  from rs have "rs = 0 \<or> rs = 1" by (simp add: lcd_consts)
  moreover from bl have "bl = 0 \<or> bl = 8" by (simp add: lcd_consts)
  moreover from b have "b = bl OR rs OR 4 OR push_bit 4 n \<or>
         b = (bl OR rs OR 4 OR push_bit 4 n) AND NOT 4" by (simp add: lcd_consts)
  ultimately show ?thesis
    by (auto intro!: byte_eqI simp: bit_simps)
qed

lemma frame_nibble:
  fixes b n rs bl :: byte
  assumes rs: "rs \<in> {lcdRegisterCommand, lcdRegisterData}"
    and bl: "bl \<in> {lcdBacklightOff, lcdBacklightOn}"
    and b: "b = bl OR rs OR lcdEnableBit OR push_bit 4 n \<or>
         b = (bl OR rs OR lcdEnableBit OR push_bit 4 n) AND NOT lcdEnableBit"
  shows "drop_bit 4 b = n AND 0x0F"
proof -
  from rs have "rs = 0 \<or> rs = 1" by (simp add: lcd_consts)
  moreover from bl have "bl = 0 \<or> bl = 8" by (simp add: lcd_consts)
  moreover from b have "b = bl OR rs OR 4 OR push_bit 4 n \<or>
         b = (bl OR rs OR 4 OR push_bit 4 n) AND NOT 4" by (simp add: lcd_consts)
  ultimately show ?thesis
    by (auto intro!: byte_eqI simp: bit_simps byte_bit_high)
qed

lemma high_nibble_small: "drop_bit 4 (v::byte) AND 0x0F = drop_bit 4 v"
  by (rule byte_eqI; simp add: bit_simps byte_bit_high)

lemma low_nibble_small: "((v::byte) AND 0x0F) AND 0x0F = v AND 0x0F"
  by (rule byte_eqI; simp add: bit_simps)

lemma nibbles_whole: "push_bit 4 (drop_bit 4 v) OR (v AND 0x0F) = (v::byte)"
  by (rule byte_eqI; simp add: bit_simps)

text \<open>
  C1. Over a transport that accepts the writes, \<open>send val rs\<close> returns no error and
  makes exactly four transport writes: the high nibble \<open>val >> 4\<close> with the enable bit
  set, the same byte with the enable bit cleared, then the low nibble \<open>val & 0x0F\<close>
  set and cleared. Each set byte is \<open>backlight | rs | enable | (nibble << 4)\<close>. Bit 2
  (enable) is set on the first and third write and clear on the second and fourth; bit 0
  (register select) and bit 3 (backlight) are the same on all four writes; and for the
  values the driver uses (rs 0 or 1, backlight 0x00 or 0x08) bit 0 is rs, bit 3 is the
  backlight, bit 1 (read/write) is low and the upper four bits are the nibble.
  Whatever the transport does, the writes \<open>send\<close> makes are the first \<open>k\<close> of these
  four, \<open>k\<close> from 1 to 4, in this order, and all four when it returns no error: a write
  that fails ends the call.
\<close>

theorem send_four_writes:
  assumes "quiet w"
  shows
    "let hi = drop_bit 4 val;
         lo = val AND 0x0F;
         hs = backlight lcd OR rs OR lcdEnableBit OR push_bit 4 hi;
         hc = hs AND NOT lcdEnableBit;
         ls = backlight lcd OR rs OR lcdEnableBit OR push_bit 4 lo;
         lc = ls AND NOT lcdEnableBit
     in fst (send lcd val rs w) = None \<and>
        wire (snd (send lcd val rs w)) = wire w @ [Wrote hs, Wrote hc, Wrote ls, Wrote lc] \<and>
        (\<forall>w1. \<exists>k \<in> {1, 2, 3, 4}.
           since w1 (snd (send lcd val rs w1)) = map Wrote (take k [hs, hc, ls, lc]) \<and>
           (fst (send lcd val rs w1) = None \<longrightarrow> k = 4)) \<and>
        bit hs 2 \<and> \<not> bit hc 2 \<and> bit ls 2 \<and> \<not> bit lc 2 \<and>
        (\<forall>b \<in> set [hs, hc, ls, lc].
           (bit b 0 \<longleftrightarrow> bit (backlight lcd OR rs) 0) \<and>
           (bit b 3 \<longleftrightarrow> bit (backlight lcd OR rs) 3)) \<and>
        (rs \<in> {lcdRegisterCommand, lcdRegisterData} \<and>
         backlight lcd \<in> {lcdBacklightOff, lcdBacklightOn} \<longrightarrow>
           (\<forall>b \<in> set [hs, hc, ls, lc].
              b AND 0x01 = rs \<and> b AND 0x02 = 0 \<and> b AND 0x08 = backlight lcd) \<and>
           drop_bit 4 hs = hi \<and> drop_bit 4 hc = hi \<and>
           drop_bit 4 ls = lo \<and> drop_bit 4 lc = lo \<and>
           push_bit 4 hi OR lo = val)"
proof -
  define hi lo where "hi = drop_bit 4 val" and "lo = val AND 0x0F"
  define hs ls where "hs = backlight lcd OR rs OR lcdEnableBit OR push_bit 4 hi"
    and "ls = backlight lcd OR rs OR lcdEnableBit OR push_bit 4 lo"
  define hc lc where "hc = hs AND NOT lcdEnableBit" and "lc = ls AND NOT lcdEnableBit"
  note defs = hs_def hc_def ls_def lc_def
  have ok: "fst (send lcd val rs w) = None"
    using assms by (simp add: send_quiet)
  have wr: "wire (snd (send lcd val rs w)) = wire w @ [Wrote hs, Wrote hc, Wrote ls, Wrote lc]"
    using assms
    by (simp add: send_quiet wire_emit byte_writes_def nibble_writes_def defs hi_def lo_def)
  have bw: "byte_writes (backlight lcd) rs val = [hs, hc, ls, lc]"
    by (simp add: byte_writes_def nibble_writes_def defs hi_def lo_def)
  have anyw: "\<forall>w1. \<exists>k \<in> {1, 2, 3, 4}.
           since w1 (snd (send lcd val rs w1)) = map Wrote (take k [hs, hc, ls, lc]) \<and>
           (fst (send lcd val rs w1) = None \<longrightarrow> k = 4)"
    using send_any_transport [of _ lcd val rs] unfolding bw by blast
  have en: "bit hs 2 \<and> \<not> bit hc 2 \<and> bit ls 2 \<and> \<not> bit lc 2"
    by (simp add: defs lcdEnableBit_def bit_simps)
  have same: "\<forall>b \<in> set [hs, hc, ls, lc].
           (bit b 0 \<longleftrightarrow> bit (backlight lcd OR rs) 0) \<and>
           (bit b 3 \<longleftrightarrow> bit (backlight lcd OR rs) 3)"
    by (simp add: defs lcdEnableBit_def bit_simps)
  have used: "(\<forall>b \<in> set [hs, hc, ls, lc].
              b AND 0x01 = rs \<and> b AND 0x02 = 0 \<and> b AND 0x08 = backlight lcd) \<and>
           drop_bit 4 hs = hi \<and> drop_bit 4 hc = hi \<and>
           drop_bit 4 ls = lo \<and> drop_bit 4 lc = lo \<and>
           push_bit 4 hi OR lo = val"
    if rs: "rs \<in> {lcdRegisterCommand, lcdRegisterData}"
      and bl: "backlight lcd \<in> {lcdBacklightOff, lcdBacklightOn}"
  proof -
    note m = frame_masks [OF rs bl] and n = frame_nibble [OF rs bl]
    have "b AND 0x01 = rs \<and> b AND 0x02 = 0 \<and> b AND 0x08 = backlight lcd"
      if "b \<in> set [hs, hc, ls, lc]" for b
      using that m [of b hi] m [of b lo] by (auto simp: defs)
    moreover have "drop_bit 4 hs = hi" "drop_bit 4 hc = hi"
      using n [of hs hi] n [of hc hi] high_nibble_small [of val] by (simp_all add: defs hi_def)
    moreover have "drop_bit 4 ls = lo" "drop_bit 4 lc = lo"
      using n [of ls lo] n [of lc lo] low_nibble_small [of val] by (simp_all add: defs lo_def)
    moreover have "push_bit 4 hi OR lo = val"
      unfolding hi_def lo_def by (rule nibbles_whole)
    ultimately show ?thesis by blast
  qed
  from ok wr anyw en same used show ?thesis
    unfolding Let_def hi_def [symmetric] lo_def [symmetric] hs_def [symmetric]
      ls_def [symmetric] hc_def [symmetric] lc_def [symmetric]
    by blast
qed

theorem send_four_writes_witness:
  "quiet fresh \<and>
   fst (send \<lparr>backlight = 0x08, cols = 16, rows = 2, font = 0, displayState = 4\<rparr>
          0x48 lcdRegisterData fresh) = None \<and>
   wire (snd (send \<lparr>backlight = 0x08, cols = 16, rows = 2, font = 0, displayState = 4\<rparr>
                0x48 lcdRegisterData fresh))
     = [Wrote 0x4D, Wrote 0x49, Wrote 0x8D, Wrote 0x89]"
  using send_four_writes [OF quiet_fresh, where val = "0x48" and rs = lcdRegisterData and
      lcd = "\<lparr>backlight = 0x08, cols = 16, rows = 2, font = 0, displayState = 4\<rparr>"]
  by (simp add: quiet_fresh wire_fresh Let_def lcdEnableBit_def lcdRegisterData_def)

section \<open>Construction\<close>

lemma length_framed: "length (framed bl rs vs) = 4 * length vs"
  by (induction vs) (simp_all add: framed_def length_byte_writes)

lemma done_ok_emit: "done_ok w = (None, emit [] 0 w)"
  by (simp add: done_ok_def emit_def)

lemma Clear_quiet:
  "quiet w \<Longrightarrow>
   Clear lcd w = (None, emit (byte_writes (backlight lcd) lcdRegisterCommand lcdClear) 2100 w)"
  by (simp add: Clear_def andThen_def sendCommand_quiet sleep_emit emit_emit)

lemma init_quiet:
  "quiet w \<Longrightarrow>
   init lcd w =
     (None, emit (framed (backlight lcd) lcdRegisterCommand (init_commands lcd)) 57900 w)"
  by (simp add: init_def Let_def andThen_def sendCommand_quiet Clear_quiet sleep_emit
      done_ok_emit quiet_emit emit_emit framed_def init_commands_def)

lemma i2c_Open_quiet:
  "quiet w \<Longrightarrow> fst (i2c_Open bus a w) = None \<and> quiet (snd (i2c_Open bus a w)) \<and>
     wire (snd (i2c_Open bus a w)) = wire w @ [Opened bus a]"
  by (cases "faults w") (auto simp: i2c_Open_def next_fails_def quiet_def)

lemma New_quiet:
  assumes "validateInputs c r f = None" and "quiet w"
  defines "lcd0 \<equiv> \<lparr>backlight = 0, cols = c, rows = r, font = f, displayState = lcdDisplayOn\<rparr>"
  shows "fst (New bus a c r f bl w) =
           Inr (if bl then lcd0\<lparr>backlight := lcdBacklightOn\<rparr> else lcd0)"
    and "wire (snd (New bus a c r f bl w)) =
           wire w @ Opened bus a # map Wrote (framed 0 lcdRegisterCommand (init_commands lcd0))"
    and "quiet (snd (New bus a c r f bl w))"
proof -
  obtain w1 where o: "i2c_Open bus a w = (None, w1)" and q1: "quiet w1"
    and w1: "wire w1 = wire w @ [Opened bus a]"
    using i2c_Open_quiet [OF assms(2), of bus a] by (cases "i2c_Open bus a w") auto
  have st: "lcdDisplayOn OR lcdDisplayCursorOff OR lcdDisplayBlinkOff = lcdDisplayOn"
    by (simp add: lcd_consts)
  have i: "init lcd0 w1 = (None, emit (framed 0 lcdRegisterCommand (init_commands lcd0)) 57900 w1)"
    using init_quiet [OF q1, of lcd0] by (simp add: lcd0_def)
  have n: "New bus a c r f bl w =
     (Inr (if bl then lcd0\<lparr>backlight := lcdBacklightOn\<rparr> else lcd0),
      emit (framed 0 lcdRegisterCommand (init_commands lcd0)) 57900 w1)"
    using i by (simp add: New_def assms(1) o st Let_def lcd0_def)
  show "fst (New bus a c r f bl w) =
           Inr (if bl then lcd0\<lparr>backlight := lcdBacklightOn\<rparr> else lcd0)"
    by (simp add: n)
  show "wire (snd (New bus a c r f bl w)) =
           wire w @ Opened bus a # map Wrote (framed 0 lcdRegisterCommand (init_commands lcd0))"
    by (simp add: n wire_emit w1)
  show "quiet (snd (New bus a c r f bl w))"
    by (simp add: n quiet_emit q1)
qed

lemma validateInputs_None:
  "validateInputs c r f = None \<longleftrightarrow>
     c \<in> {16, 20} \<and> r \<in> {1, 2, 4} \<and> f \<in> {Font5x8, Font5x10} \<and> (f = Font5x10 \<longrightarrow> r = 1)"
  by (auto simp: validateInputs_def)

lemma validateInputs_kind:
  "validateInputs c r f = Some e \<Longrightarrow> kind_of e = InvalidArgument"
  by (auto simp: validateInputs_def split: if_splits)

text \<open>
  C4. \<open>New\<close> validates before any bus I/O: when columns is not 16 or 20, or rows is
  not 1, 2 or 4, or the font is not 5x8 or 5x10, or the font is 5x10 with rows other than
  1 (whatever the columns), it returns an error of kind InvalidArgument and leaves the
  world as it was: the transport is neither opened nor written, and nothing is slept.
\<close>

theorem New_validates_before_io:
  assumes "c \<notin> {16, 20} \<or> r \<notin> {1, 2, 4} \<or> f \<notin> {Font5x8, Font5x10} \<or>
           (f = Font5x10 \<and> r \<noteq> 1)"
  shows "\<exists>e. New bus a c r f bl w = (Inl e, w) \<and> kind_of e = InvalidArgument"
proof -
  from assms have "validateInputs c r f \<noteq> None"
    by (auto simp: validateInputs_None)
  then obtain e where e: "validateInputs c r f = Some e" by auto
  then have "New bus a c r f bl w = (Inl (InvalidInputs e), w)"
    by (simp add: New_def)
  moreover have "kind_of (InvalidInputs e) = InvalidArgument"
    using validateInputs_kind [OF e] by simp
  ultimately show ?thesis by blast
qed

theorem New_validates_before_io_witness:
  "New DefaultDevice DefaultAddress 20 4 Font5x10 True fresh
     = (Inl (InvalidInputs (Font5x10Rows 4)), fresh) \<and>
   New DefaultDevice DefaultAddress 16 2 Font5x10 False fresh
     = (Inl (InvalidInputs (Font5x10Rows 2)), fresh) \<and>
   New DefaultDevice DefaultAddress 8 2 Font5x8 True fresh
     = (Inl (InvalidInputs (InvalidCols 8)), fresh)"
  using New_validates_before_io [of 20 4 Font5x10 DefaultDevice DefaultAddress True fresh]
    New_validates_before_io [of 16 2 Font5x10 DefaultDevice DefaultAddress False fresh]
    New_validates_before_io [of 8 2 Font5x8 DefaultDevice DefaultAddress True fresh]
  by (simp add: New_def validateInputs_def Font5x8_def Font5x10_def lcdF5x8Dot_def lcdF5x10Dot_def)

section \<open>Backlight\<close>

lemma withHandle_parts:
  "fst (withHandle lcd s w) = fst (s w)"
  "fst (snd (withHandle lcd s w)) = lcd"
  "snd (snd (withHandle lcd s w)) = snd (s w)"
  by (simp_all add: withHandle_def split: prod.splits)

lemma EnableBacklight_handle:
  "fst (snd (EnableBacklight lcd w)) = lcd\<lparr>backlight := lcdBacklightOn\<rparr>"
  by (simp add: EnableBacklight_def withHandle_parts Let_def)

lemma DisableBacklight_handle:
  "fst (snd (DisableBacklight lcd w)) = lcd\<lparr>backlight := lcdBacklightOff\<rparr>"
  by (simp add: DisableBacklight_def withHandle_parts Let_def)

lemma EnableBacklight_wire:
  "wire (snd (snd (EnableBacklight lcd w))) = wire w @ [Wrote lcdBacklightOn]"
  by (simp add: EnableBacklight_def withHandle_parts Let_def busWrite_wire)

lemma DisableBacklight_wire:
  "wire (snd (snd (DisableBacklight lcd w))) = wire w @ [Wrote lcdBacklightOff]"
  by (simp add: DisableBacklight_def withHandle_parts Let_def busWrite_wire)

lemma EnableBacklight_result:
  "fst (EnableBacklight lcd w) =
     (if next_fails w then Some (I2CWriteError TransportFault) else None)"
  by (simp add: EnableBacklight_def withHandle_parts Let_def busWrite_result)

lemma DisableBacklight_result:
  "fst (DisableBacklight lcd w) =
     (if next_fails w then Some (I2CWriteError TransportFault) else None)"
  by (simp add: DisableBacklight_def withHandle_parts Let_def busWrite_result)

text \<open>
  C10. \<open>EnableBacklight\<close> and \<open>DisableBacklight\<close> leave the handle with the backlight
  field 0x08 and 0x00, whether or not the write fails, and make exactly one transport
  write, of that byte itself: no nibble framing and no enable pulse. In the byte
  written, register select (bit 0), read/write (bit 1), enable (bit 2) and the four data
  pins (bits 4 to 7) are all low. The call fails exactly when that one write fails.
\<close>

theorem backlight_single_raw_write:
  "fst (snd (EnableBacklight lcd w)) = lcd\<lparr>backlight := lcdBacklightOn\<rparr> \<and>
   wire (snd (snd (EnableBacklight lcd w))) = wire w @ [Wrote 0x08] \<and>
   fst (EnableBacklight lcd w)
     = (if next_fails w then Some (I2CWriteError TransportFault) else None) \<and>
   fst (snd (DisableBacklight lcd w)) = lcd\<lparr>backlight := lcdBacklightOff\<rparr> \<and>
   wire (snd (snd (DisableBacklight lcd w))) = wire w @ [Wrote 0x00] \<and>
   fst (DisableBacklight lcd w)
     = (if next_fails w then Some (I2CWriteError TransportFault) else None) \<and>
   lcdBacklightOn = 0x08 \<and> lcdBacklightOff = 0x00 \<and>
   (0x08 :: byte) AND 0xF7 = 0 \<and> (0x00 :: byte) AND 0xF7 = 0"
  using EnableBacklight_wire [of lcd w] DisableBacklight_wire [of lcd w]
  by (simp add: EnableBacklight_handle DisableBacklight_handle EnableBacklight_result
      DisableBacklight_result lcdBacklightOn_def lcdBacklightOff_def)

lemma ToggleBacklight_handle:
  "fst (snd (ToggleBacklight lcd w)) =
     lcd\<lparr>backlight := (if backlight lcd = lcdBacklightOff then lcdBacklightOn else lcdBacklightOff)\<rparr>"
  by (simp add: ToggleBacklight_def EnableBacklight_handle DisableBacklight_handle)

text \<open>
  C8. On a handle whose backlight field is 0x08 or 0x00 (the only values the driver
  ever stores there), one \<open>ToggleBacklight\<close> flips the field between the two, and two
  in succession give back the handle as it was. The field is assigned before the write,
  so this holds whether or not a call returns an I/O error.
\<close>

theorem ToggleBacklight_twice:
  assumes "backlight lcd \<in> {lcdBacklightOff, lcdBacklightOn}"
  shows
    "let lcd1 = fst (snd (ToggleBacklight lcd w));
         w1 = snd (snd (ToggleBacklight lcd w));
         lcd2 = fst (snd (ToggleBacklight lcd1 w1))
     in backlight lcd1 = (if backlight lcd = lcdBacklightOff then lcdBacklightOn
                          else lcdBacklightOff) \<and>
        backlight lcd1 \<noteq> backlight lcd \<and>
        backlight lcd2 = backlight lcd \<and> lcd2 = lcd"
  using assms by (auto simp: Let_def ToggleBacklight_handle lcdBacklightOn_def lcdBacklightOff_def)

theorem ToggleBacklight_twice_witness:
  "backlight \<lparr>backlight = 0x08, cols = 16, rows = 2, font = 0, displayState = 4\<rparr>
     \<in> {lcdBacklightOff, lcdBacklightOn} \<and>
   backlight (fst (snd (ToggleBacklight
       \<lparr>backlight = 0x08, cols = 16, rows = 2, font = 0, displayState = 4\<rparr> fresh))) = 0x00 \<and>
   backlight (fst (snd (ToggleBacklight
       (fst (snd (ToggleBacklight
          \<lparr>backlight = 0x08, cols = 16, rows = 2, font = 0, displayState = 4\<rparr> fresh)))
       (snd (snd (ToggleBacklight
          \<lparr>backlight = 0x08, cols = 16, rows = 2, font = 0, displayState = 4\<rparr> fresh)))))) = 0x08"
  using ToggleBacklight_twice [of
      "\<lparr>backlight = 0x08, cols = 16, rows = 2, font = 0, displayState = 4\<rparr>" fresh]
  by (simp add: Let_def lcdBacklightOn_def lcdBacklightOff_def)

section \<open>Display control\<close>

lemma set_bit_masks:
  fixes s b :: byte
  shows "(s OR b) AND b = b" and "(s OR b) AND NOT b = s AND NOT b"
    and "(s AND NOT b) AND b = 0" and "(s AND NOT b) AND NOT b = s AND NOT b"
  by (rule bit_word_eqI; auto simp: bit_simps)+

lemma ctrl_low_bits: "(lcdDisplayCtrl OR s) AND 0x07 = s AND 0x07"
  by (rule byte_eqI; simp add: lcdDisplayCtrl_def bit_simps)

lemma display_op_effect:
  fixes lcd :: LCD and g :: "byte \<Rightarrow> byte"
  defines "lcd1 \<equiv> lcd\<lparr>displayState := g (displayState lcd)\<rparr>"
  assumes m: "m lcd = withHandle lcd1 (sendCommand lcd1 (lcdDisplayCtrl OR displayState lcd1))"
  shows "fst (snd (m lcd w)) = lcd1"
    and "(fst (m lcd w), snd (snd (m lcd w)))
           = sendCommand lcd1 (lcdDisplayCtrl OR displayState lcd1) w"
    and "quiet w \<Longrightarrow> fst (m lcd w) = None \<and>
           wire (snd (snd (m lcd w))) =
             wire w @ map Wrote (byte_writes (backlight lcd) lcdRegisterCommand
                                   (lcdDisplayCtrl OR g (displayState lcd)))"
  by (simp_all add: m withHandle_parts sendCommand_quiet wire_emit lcd1_def)

text \<open>
  C7. Each of \<open>DisplayOn\<close>, \<open>DisplayOff\<close>, \<open>CursorOn\<close>, \<open>CursorOff\<close>, \<open>BlinkOn\<close> and
  \<open>BlinkOff\<close> sets (or clears) its own bit of the display-control state and leaves every
  other bit of it as it was; the backlight, columns, rows and font fields are unchanged;
  and it then sends, as one command through \<open>sendCommand\<close>, the byte
  \<open>lcdDisplayCtrl | displayState\<close> of the updated state, whose three low bits are the
  three state bits. Over a transport that accepts the writes the call succeeds and the
  wire gains exactly the four bytes of that one command.
\<close>

theorem display_control_ops:
  "\<forall>(m, b, on) \<in> set [(DisplayOn, lcdDisplayOn, True), (DisplayOff, lcdDisplayOn, False),
                       (CursorOn, lcdDisplayCursorOn, True),
                       (CursorOff, lcdDisplayCursorOn, False),
                       (BlinkOn, lcdDisplayBlinkOn, True),
                       (BlinkOff, lcdDisplayBlinkOn, False)].
     let err = fst (m lcd w); lcd1 = fst (snd (m lcd w)); w1 = snd (snd (m lcd w));
         command = lcdDisplayCtrl OR displayState lcd1
     in displayState lcd1 AND b = (if on then b else 0) \<and>
        displayState lcd1 AND NOT b = displayState lcd AND NOT b \<and>
        backlight lcd1 = backlight lcd \<and> cols lcd1 = cols lcd \<and>
        rows lcd1 = rows lcd \<and> font lcd1 = font lcd \<and>
        (err, w1) = sendCommand lcd1 command w \<and>
        command AND 0x07 = displayState lcd1 AND 0x07 \<and>
        (quiet w \<longrightarrow>
           err = None \<and>
           wire w1 = wire w @ map Wrote (byte_writes (backlight lcd) lcdRegisterCommand command))"
proof -
  note on = display_op_effect [where g = "\<lambda>s. s OR b" for b]
  note off = display_op_effect [where g = "\<lambda>s. s AND NOT b" for b]
  note d1 = on [of DisplayOn lcd lcdDisplayOn, OF DisplayOn_def [unfolded Let_def]]
  note d0 = off [of DisplayOff lcd lcdDisplayOn, OF DisplayOff_def [unfolded Let_def]]
  note c1 = on [of CursorOn lcd lcdDisplayCursorOn, OF CursorOn_def [unfolded Let_def]]
  note c0 = off [of CursorOff lcd lcdDisplayCursorOn, OF CursorOff_def [unfolded Let_def]]
  note b1 = on [of BlinkOn lcd lcdDisplayBlinkOn, OF BlinkOn_def [unfolded Let_def]]
  note b0 = off [of BlinkOff lcd lcdDisplayBlinkOn, OF BlinkOff_def [unfolded Let_def]]
  show ?thesis
    using d1(2)[of w] d0(2)[of w] c1(2) [of w] c0(2) [of w] b1(2) [of w] b0(2) [of w]
          d1(3)[of w] d0(3)[of w] c1(3) [of w] c0(3) [of w] b1(3) [of w] b0(3) [of w]
    by (simp add: Let_def d1(1) d0(1) c1(1) c0(1) b1(1) b0(1) set_bit_masks ctrl_low_bits)
qed

theorem display_control_ops_witness:
  "quiet fresh \<and>
   fst (CursorOn \<lparr>backlight = 0x08, cols = 16, rows = 2, font = 0, displayState = 4\<rparr> fresh)
     = None \<and>
   fst (snd (CursorOn \<lparr>backlight = 0x08, cols = 16, rows = 2, font = 0, displayState = 4\<rparr>
               fresh))
     = \<lparr>backlight = 0x08, cols = 16, rows = 2, font = 0, displayState = 6\<rparr> \<and>
   wire (snd (snd (CursorOn
       \<lparr>backlight = 0x08, cols = 16, rows = 2, font = 0, displayState = 4\<rparr> fresh)))
     = map Wrote [0x0C, 0x08, 0xEC, 0xE8]"
  using display_control_ops
    [of "\<lparr>backlight = 0x08, cols = 16, rows = 2, font = 0, displayState = 4\<rparr>" fresh]
  by (simp add: quiet_fresh wire_fresh Let_def CursorOn_def withHandle_parts
      byte_writes_def nibble_writes_def lcd_consts)

section \<open>Custom characters and the cursor\<close>

lemma sendAll_quiet:
  "quiet w \<Longrightarrow>
   sendAll lcd bs w =
     (None, emit (framed (backlight lcd) lcdRegisterData bs) (100 * length bs) w)"
proof (induction bs arbitrary: w)
  case Nil
  then show ?case by (simp add: done_ok_emit framed_def)
next
  case (Cons b bs)
  then show ?case
    by (simp add: andThen_def sendData_quiet quiet_emit emit_emit framed_def)
qed

lemma Write_quiet:
  "quiet w \<Longrightarrow>
   Write lcd cs w =
     (None, emit (framed (backlight lcd) lcdRegisterData (map ucast cs)) (100 * length cs) w)"
proof (induction cs arbitrary: w)
  case Nil
  then show ?case by (simp add: done_ok_emit framed_def)
next
  case (Cons c cs)
  then show ?case
    by (simp add: andThen_def sendData_quiet quiet_emit emit_emit framed_def)
qed

lemma io_andThen: "io_errors_only a \<Longrightarrow> io_errors_only b \<Longrightarrow> io_errors_only (andThen a b)"
  unfolding io_errors_only_def andThen_def
  by (auto split: prod.splits option.splits) (metis fst_conv)+

lemma io_sleep: "io_errors_only (sleep us)"
  by (simp add: io_errors_only_def sleep_def)

lemma io_done_ok: "io_errors_only done_ok"
  by (simp add: io_errors_only_def done_ok_def)

lemma io_busWrite: "io_errors_only (busWrite lcd b)"
  by (auto simp: io_errors_only_def busWrite_def split: prod.splits option.splits)

lemma io_writeByte: "io_errors_only (writeByte lcd n rs)"
  by (simp add: writeByte_def Let_def io_andThen io_busWrite io_sleep)

lemma io_send: "io_errors_only (send lcd v rs)"
  by (simp add: send_def Let_def io_andThen io_writeByte)

lemma io_sendAll: "io_errors_only (sendAll lcd bs)"
  by (induction bs) (simp_all add: io_done_ok io_andThen sendData_def io_send)

lemma io_UploadCustomChar: "io_errors_only (UploadCustomChar lcd location char)"
  by (simp add: UploadCustomChar_def Let_def io_andThen sendCommand_def io_send io_sendAll)

lemma mask_mask7: "((l::byte) AND 0x7) AND 0x7 = l AND 0x7"
  by (rule byte_eqI; simp add: bit_simps)

text \<open>
  C5. \<open>UploadCustomChar\<close> uses only \<open>location & 0x7\<close>: it behaves the same on
  \<open>location\<close> and on \<open>location & 0x7\<close>, whatever the upper bits. Over a transport that
  accepts the writes it succeeds and sends one command byte
  \<open>0x40 | ((location & 0x7) << 3)\<close> followed by the eight bytes of the pattern as data
  bytes, in order, each framed by \<open>send\<close>. Whatever the transport does, an error it
  returns is never of kind InvalidArgument.
\<close>

theorem UploadCustomChar_masks_location:
  assumes "length char = 8"
  shows
    "UploadCustomChar lcd location char = UploadCustomChar lcd (location AND 0x7) char \<and>
     (\<forall>e. fst (UploadCustomChar lcd location char w) = Some e \<longrightarrow>
          kind_of e \<noteq> InvalidArgument) \<and>
     (quiet w \<longrightarrow>
        fst (UploadCustomChar lcd location char w) = None \<and>
        wire (snd (UploadCustomChar lcd location char w)) =
          wire w @
          map Wrote (byte_writes (backlight lcd) lcdRegisterCommand
                       (0x40 OR push_bit 3 (location AND 0x7))) @
          map Wrote (concat (map (byte_writes (backlight lcd) lcdRegisterData) char)) \<and>
        length (concat (map (byte_writes (backlight lcd) lcdRegisterData) char)) = 4 * 8)"
proof (intro conjI allI impI)
  show "UploadCustomChar lcd location char = UploadCustomChar lcd (location AND 0x7) char"
    by (simp add: UploadCustomChar_def Let_def mask_mask7)
next
  fix e assume "fst (UploadCustomChar lcd location char w) = Some e"
  with io_UploadCustomChar [of lcd location char] have "kind_of e = IOError"
    by (simp add: io_errors_only_def)
  then show "kind_of e \<noteq> InvalidArgument" by simp
next
  assume q: "quiet w"
  then have u: "UploadCustomChar lcd location char w =
      (None, emit (byte_writes (backlight lcd) lcdRegisterCommand
                     (lcdCGRAMAddrBase OR push_bit 3 (location AND 0x7)) @
                   framed (backlight lcd) lcdRegisterData char) (100 + 100 * length char) w)"
    by (simp add: UploadCustomChar_def Let_def andThen_def sendCommand_quiet sendAll_quiet
        quiet_emit emit_emit)
  show "fst (UploadCustomChar lcd location char w) = None"
    by (simp add: u)
  show "wire (snd (UploadCustomChar lcd location char w)) =
          wire w @
          map Wrote (byte_writes (backlight lcd) lcdRegisterCommand
                       (0x40 OR push_bit 3 (location AND 0x7))) @
          map Wrote (concat (map (byte_writes (backlight lcd) lcdRegisterData) char))"
    by (simp add: u wire_emit framed_def lcdCGRAMAddrBase_def)
  show "length (concat (map (byte_writes (backlight lcd) lcdRegisterData) char)) = 4 * 8"
    using length_framed [of "backlight lcd" lcdRegisterData char] assms
    by (simp add: framed_def)
qed

theorem UploadCustomChar_masks_location_witness:
  "length [0x0E, 0x1F, 0x15, 0x1F, 0x0E, 0x1F, 0x15, 0x15 :: byte] = 8 \<and> quiet fresh \<and>
   fst (UploadCustomChar \<lparr>backlight = 0x08, cols = 16, rows = 2, font = 0, displayState = 4\<rparr>
          0x0B [0x0E, 0x1F, 0x15, 0x1F, 0x0E, 0x1F, 0x15, 0x15] fresh) = None \<and>
   wire (snd (UploadCustomChar
                \<lparr>backlight = 0x08, cols = 16, rows = 2, font = 0, displayState = 4\<rparr>
                0x0B [0x0E, 0x1F, 0x15, 0x1F, 0x0E, 0x1F, 0x15, 0x15] fresh))
     = map Wrote [0x5C, 0x58, 0x8C, 0x88,
                  0x0D, 0x09, 0xED, 0xE9,  0x1D, 0x19, 0xFD, 0xF9,
                  0x1D, 0x19, 0x5D, 0x59,  0x1D, 0x19, 0xFD, 0xF9,
                  0x0D, 0x09, 0xED, 0xE9,  0x1D, 0x19, 0xFD, 0xF9,
                  0x1D, 0x19, 0x5D, 0x59,  0x1D, 0x19, 0x5D, 0x59]"
  using UploadCustomChar_masks_location
    [where char = "[0x0E, 0x1F, 0x15, 0x1F, 0x0E, 0x1F, 0x15, 0x15]" and location = "0x0B"
       and w = fresh
       and lcd = "\<lparr>backlight = 0x08, cols = 16, rows = 2, font = 0, displayState = 4\<rparr>",
     THEN conjunct2]
  by (simp add: quiet_fresh wire_fresh byte_writes_def nibble_writes_def lcd_consts)

section \<open>The initialization sequence\<close>

lemma valid_geometry_font:
  "c \<in> {16, 20} \<and> r \<in> {1, 2, 4} \<and> f \<in> {Font5x8, Font5x10} \<and> (f = Font5x10 \<longrightarrow> r = 1)
   \<Longrightarrow> validateInputs c r f = None"
  by (simp add: validateInputs_None)

lemma New_fresh_16x2:
  "fst (New DefaultDevice DefaultAddress 16 2 Font5x8 True fresh)
     = Inr \<lparr>backlight = 0x08, cols = 16, rows = 2, font = 0, displayState = 4\<rparr>"
  "wire (snd (New DefaultDevice DefaultAddress 16 2 Font5x8 True fresh))
     = Opened DefaultDevice DefaultAddress #
       map Wrote [0x04, 0x00, 0x34, 0x30,  0x04, 0x00, 0x34, 0x30,
                  0x04, 0x00, 0x34, 0x30,  0x04, 0x00, 0x24, 0x20,
                  0x24, 0x20, 0x84, 0x80,  0x04, 0x00, 0xC4, 0xC0,
                  0x04, 0x00, 0x64, 0x60,  0x04, 0x00, 0x14, 0x10]"
  using New_quiet [of 16 2 Font5x8 fresh DefaultDevice DefaultAddress True]
  by (simp_all add: validateInputs_def quiet_fresh wire_fresh framed_def init_commands_def
      byte_writes_def nibble_writes_def lcd_consts)

text \<open>
  C2 as stated fails: for 16 columns, 2 rows and the 5x8 font the bytes written during
  construction are not the documented sequence. Each of the values 3, 3, 3, 2 goes
  through \<open>sendCommand\<close> like any command byte, so a transfer of the nibble 0 precedes
  each of the documented nibble transfers: 32 writes instead of 24.
\<close>

theorem New_init_not_nibble_writes:
  "written (wire (snd (New DefaultDevice DefaultAddress 16 2 Font5x8 True fresh)))
     = [0x04, 0x00, 0x34, 0x30,  0x04, 0x00, 0x34, 0x30,
        0x04, 0x00, 0x34, 0x30,  0x04, 0x00, 0x24, 0x20,
        0x24, 0x20, 0x84, 0x80,  0x04, 0x00, 0xC4, 0xC0,
        0x04, 0x00, 0x64, 0x60,  0x04, 0x00, 0x14, 0x10] \<and>
   documented_init 2 Font5x8
     = [0x34, 0x30,  0x34, 0x30,  0x34, 0x30,  0x24, 0x20,
        0x24, 0x20, 0x84, 0x80,  0x04, 0x00, 0xC4, 0xC0,
        0x04, 0x00, 0x64, 0x60,  0x04, 0x00, 0x14, 0x10] \<and>
   written (wire (snd (New DefaultDevice DefaultAddress 16 2 Font5x8 True fresh)))
     \<noteq> documented_init 2 Font5x8"
  unfolding New_fresh_16x2
  by (simp add: documented_init_def byte_writes_def nibble_writes_def lcd_consts)

text \<open>
  C2, amended. For every valid geometry and font, over a transport that accepts the
  calls, construction succeeds and puts on the transport, after opening it, exactly the
  eight command bytes 0x03, 0x03, 0x03, 0x02, the function-set command
  \<open>FUNCTION_SET | 4BIT | (rows > 1 ? TWO_LINE : ONE_LINE) | font\<close>, display control
  (display on, cursor off, blink off), entry-mode set (increment, no shift) and
  clear-display, in this order and with nothing else between them, each framed by
  \<open>send\<close> with register select and backlight low. So each of 0x03, 0x03, 0x03, 0x02
  goes out as a transfer of the nibble 0 followed by the transfer of the nibble 3 (or 2).
\<close>

theorem New_init_sequence:
  assumes "c \<in> {16, 20} \<and> r \<in> {1, 2, 4} \<and> f \<in> {Font5x8, Font5x10} \<and>
           (f = Font5x10 \<longrightarrow> r = 1)"
    and "quiet w"
  shows
    "(\<exists>lcd. fst (New bus a c r f bl w) = Inr lcd) \<and>
     wire (snd (New bus a c r f bl w)) =
       wire w @ Opened bus a #
       map Wrote (concat (map (byte_writes 0 lcdRegisterCommand)
         [0x03, 0x03, 0x03, 0x02,
          lcdFuncSet OR lcdDL4Bit OR (if r > 1 then lcdNTwoLine else lcdNOneLine) OR f,
          lcdDisplayCtrl OR lcdDisplayOn OR lcdDisplayCursorOff OR lcdDisplayBlinkOff,
          lcdEntryModeSet OR lcdEntryModeIDIncr OR lcdEntryModeShiftDisable,
          lcdClear])) \<and>
     byte_writes 0 lcdRegisterCommand 0x03 =
       nibble_writes 0 lcdRegisterCommand 0x0 @ nibble_writes 0 lcdRegisterCommand 0x3 \<and>
     byte_writes 0 lcdRegisterCommand 0x02 =
       nibble_writes 0 lcdRegisterCommand 0x0 @ nibble_writes 0 lcdRegisterCommand 0x2"
proof -
  have v: "validateInputs c r f = None"
    using assms(1) by (rule valid_geometry_font)
  have st: "lcdDisplayCtrl OR lcdDisplayOn OR lcdDisplayCursorOff OR lcdDisplayBlinkOff
              = lcdDisplayCtrl OR lcdDisplayOn"
    by (simp add: lcd_consts)
  show ?thesis
    using New_quiet [OF v assms(2), of bus a bl]
    by (simp add: framed_def init_commands_def st byte_writes_def)
qed

theorem New_init_sequence_witness:
  "20 \<in> {16, 20 :: int} \<and> 1 \<in> {1, 2, 4 :: int} \<and> Font5x10 \<in> {Font5x8, Font5x10} \<and>
   quiet fresh \<and>
   written (wire (snd (New DefaultDevice DefaultAddress 20 1 Font5x10 False fresh)))
     = [0x04, 0x00, 0x34, 0x30,  0x04, 0x00, 0x34, 0x30,
        0x04, 0x00, 0x34, 0x30,  0x04, 0x00, 0x24, 0x20,
        0x24, 0x20, 0x44, 0x40,  0x04, 0x00, 0xC4, 0xC0,
        0x04, 0x00, 0x64, 0x60,  0x04, 0x00, 0x14, 0x10]"
  using New_init_sequence [of 20 1 Font5x10 fresh DefaultDevice DefaultAddress False]
  by (simp add: quiet_fresh wire_fresh byte_writes_def nibble_writes_def lcd_consts)

section \<open>Cursor addressing and printing\<close>

lemma valid_16x2: "validateInputs 16 2 Font5x8 = None"
  by (simp add: validateInputs_def lcd_consts)

lemma SetCursor_quiet:
  assumes "0 \<le> col" "col < cols lcd" "row \<in> {0, 1, 2, 3}" "quiet w"
  shows "SetCursor lcd row col w =
           (None, emit (byte_writes (backlight lcd) lcdRegisterCommand
                          (baseAddress row + word_of_int col)) 100 w)"
  using assms by (auto simp: SetCursor_def sendCommand_quiet baseAddress_def lcdDDRAMAddrBase_def)

lemma SetCursor_rejects:
  assumes "col < 0 \<or> cols lcd \<le> col \<or> row \<notin> {0, 1, 2, 3}"
  shows "\<exists>e. SetCursor lcd row col w = (Some e, w) \<and> kind_of e = InvalidArgument"
  using assms by (auto simp: SetCursor_def)

lemma SetCursor_within_geometry:
  assumes "0 \<le> col" "col < cols lcd" "0 \<le> row" "row < rows lcd" "rows lcd \<in> {1, 2, 4}"
    and "quiet w"
  shows "fst (SetCursor lcd row col w) = None \<and>
         wire (snd (SetCursor lcd row col w)) =
           wire w @ map Wrote (byte_writes (backlight lcd) lcdRegisterCommand
                                 (baseAddress row + word_of_int col))"
proof -
  from assms(3-5) have "row \<in> {0, 1, 2, 3}" by auto
  from SetCursor_quiet [OF assms(1,2) this assms(6)] show ?thesis
    by (simp add: wire_emit)
qed

text \<open>
  C3 fails on the code for a row that the configured geometry does not have. On the
  handle that \<open>New\<close> returns for 16 columns and 2 rows, \<open>SetCursor\<close> with row 2 and
  column 0 does not fail: it returns no error and sends the address command 0x94 (four
  transport writes). The column is checked against the configured columns, but the row
  only against the fixed range 0 to 3.
\<close>

theorem SetCursor_row_outside_geometry:
  "fst (New DefaultDevice DefaultAddress 16 2 Font5x8 True fresh)
     = Inr \<lparr>backlight = 0x08, cols = 16, rows = 2, font = 0, displayState = 4\<rparr> \<and>
   \<not> (2 < rows \<lparr>backlight = 0x08, cols = 16, rows = 2, font = 0, displayState = 4\<rparr>) \<and>
   fst (SetCursor \<lparr>backlight = 0x08, cols = 16, rows = 2, font = 0, displayState = 4\<rparr> 2 0
          (snd (New DefaultDevice DefaultAddress 16 2 Font5x8 True fresh))) = None \<and>
   since (snd (New DefaultDevice DefaultAddress 16 2 Font5x8 True fresh))
         (snd (SetCursor \<lparr>backlight = 0x08, cols = 16, rows = 2, font = 0, displayState = 4\<rparr>
                 2 0 (snd (New DefaultDevice DefaultAddress 16 2 Font5x8 True fresh))))
     = map Wrote [0x9C, 0x98, 0x4C, 0x48] \<and>
   [0x9C, 0x98, 0x4C, 0x48] = byte_writes 0x08 lcdRegisterCommand 0x94"
proof -
  let ?w = "snd (New DefaultDevice DefaultAddress 16 2 Font5x8 True fresh)"
  let ?lcd = "\<lparr>backlight = 0x08, cols = 16, rows = 2, font = 0, displayState = 4\<rparr>"
  have q: "quiet ?w"
    by (rule New_quiet(3)) (simp_all add: valid_16x2 quiet_fresh)
  have s: "SetCursor ?lcd 2 0 ?w =
      (None, emit (byte_writes (backlight ?lcd) lcdRegisterCommand (baseAddress 2 + word_of_int 0))
               100 ?w)"
    by (rule SetCursor_quiet) (simp_all add: q)
  show ?thesis
    unfolding s New_fresh_16x2(1)
    by (simp add: since_def wire_emit byte_writes_def nibble_writes_def baseAddress_def lcd_consts)
qed

lemma Print_quiet:
  assumes "0 \<le> col" "col < cols lcd" "row \<in> {0, 1, 2, 3}" "quiet w"
  shows "Print lcd text row col w =
           (None, emit (byte_writes (backlight lcd) lcdRegisterCommand
                          (baseAddress row + word_of_int col) @
                        framed (backlight lcd) lcdRegisterData (map ucast text))
                    (100 + 100 * length text) w)"
  by (simp add: Print_def andThen_def SetCursor_quiet [OF assms] Write_quiet quiet_emit assms(4)
      emit_emit)

text \<open>
  C6. After construction with 16 columns, 2 rows, the 5x8 font and the backlight on,
  over a transport that accepts the calls, \<open>Print "HI" 0 0\<close> succeeds and writes twelve
  bytes: the four of the address command 0x80, then the four of the data byte 0x48 (H)
  and the four of the data byte 0x49 (I), each byte as its high nibble then its low
  nibble with two writes per nibble. Bit 0x08, the backlight, is set in all twelve.
\<close>

theorem Print_HI_after_New:
  assumes "quiet w"
  shows
    "\<exists>lcd w1. New bus a 16 2 Font5x8 True w = (Inr lcd, w1) \<and>
       fst (Print lcd (ascii ''HI'') 0 0 w1) = None \<and>
       since w1 (snd (Print lcd (ascii ''HI'') 0 0 w1))
         = map Wrote ([0x8C, 0x88, 0x0C, 0x08] @
                      [0x4D, 0x49, 0x8D, 0x89] @ [0x4D, 0x49, 0x9D, 0x99]) \<and>
       [0x8C, 0x88, 0x0C, 0x08] = byte_writes 0x08 lcdRegisterCommand 0x80 \<and>
       [0x4D, 0x49, 0x8D, 0x89] = byte_writes 0x08 lcdRegisterData 0x48 \<and>
       [0x4D, 0x49, 0x9D, 0x99] = byte_writes 0x08 lcdRegisterData 0x49 \<and>
       (\<forall>b \<in> set ([0x8C, 0x88, 0x0C, 0x08] @
                    [0x4D, 0x49, 0x8D, 0x89] @ [0x4D, 0x49, 0x9D, 0x99 :: byte]).
          b AND 0x08 = 0x08)"
proof -
  let ?lcd = "\<lparr>backlight = 0x08, cols = 16, rows = 2, font = 0, displayState = 4\<rparr>"
  let ?w1 = "snd (New bus a 16 2 Font5x8 True w)"
  note v = valid_16x2
  have n: "New bus a 16 2 Font5x8 True w = (Inr ?lcd, ?w1)"
    using New_quiet(1) [OF v assms, of bus a True]
    by (simp add: prod_eq_iff lcd_consts)
  have q: "quiet ?w1"
    using v assms by (rule New_quiet(3))
  have p: "Print ?lcd (ascii ''HI'') 0 0 ?w1 =
      (None, emit (byte_writes (backlight ?lcd) lcdRegisterCommand (baseAddress 0 + word_of_int 0) @
                   framed (backlight ?lcd) lcdRegisterData (map ucast (ascii ''HI'')))
               (100 + 100 * length (ascii ''HI'')) ?w1)"
    by (rule Print_quiet) (simp_all add: q)
  have "fst (Print ?lcd (ascii ''HI'') 0 0 ?w1) = None \<and>
       since ?w1 (snd (Print ?lcd (ascii ''HI'') 0 0 ?w1))
         = map Wrote ([0x8C, 0x88, 0x0C, 0x08] @
                      [0x4D, 0x49, 0x8D, 0x89] @ [0x4D, 0x49, 0x9D, 0x99])"
    unfolding p
    by (simp add: since_def wire_emit ascii_def framed_def byte_writes_def nibble_writes_def
        baseAddress_def lcd_consts)
  moreover have "[0x8C, 0x88, 0x0C, 0x08] = byte_writes 0x08 lcdRegisterCommand 0x80 \<and>
       [0x4D, 0x49, 0x8D, 0x89] = byte_writes 0x08 lcdRegisterData 0x48 \<and>
       [0x4D, 0x49, 0x9D, 0x99] = byte_writes 0x08 lcdRegisterData 0x49 \<and>
       (\<forall>b \<in> set ([0x8C, 0x88, 0x0C, 0x08] @
                    [0x4D, 0x49, 0x8D, 0x89] @ [0x4D, 0x49, 0x9D, 0x99 :: byte]).
          b AND 0x08 = 0x08)"
    by (simp add: byte_writes_def nibble_writes_def lcd_consts)
  ultimately show ?thesis
    using n by blast
qed

theorem Print_HI_after_New_witness:
  "quiet fresh \<and>
   New DefaultDevice DefaultAddress 16 2 Font5x8 True fresh
     = (Inr \<lparr>backlight = 0x08, cols = 16, rows = 2, font = 0, displayState = 4\<rparr>,
        snd (New DefaultDevice DefaultAddress 16 2 Font5x8 True fresh)) \<and>
   written (since (snd (New DefaultDevice DefaultAddress 16 2 Font5x8 True fresh))
     (snd (Print \<lparr>backlight = 0x08, cols = 16, rows = 2, font = 0, displayState = 4\<rparr>
             (ascii ''HI'') 0 0 (snd (New DefaultDevice DefaultAddress 16 2 Font5x8 True fresh)))))
     = [0x8C, 0x88, 0x0C, 0x08, 0x4D, 0x49, 0x8D, 0x89, 0x4D, 0x49, 0x9D, 0x99]"
  using Print_HI_after_New [OF quiet_fresh, of DefaultDevice DefaultAddress] New_fresh_16x2(1)
  by (auto simp: quiet_fresh)

section \<open>The backlight bit during construction\<close>

lemma writes_only_andThen:
  assumes "writes_only P a" "writes_only P b"
  shows "writes_only P (andThen a b)"
  unfolding writes_only_def
proof
  fix w
  from assms(1) obtain xs where xs: "wire (snd (a w)) = wire w @ map Wrote xs" "list_all P xs"
    unfolding writes_only_def by blast
  show "\<exists>bs. wire (snd (andThen a b w)) = wire w @ map Wrote bs \<and> list_all P bs"
  proof (cases "fst (a w)")
    case None
    then have r: "andThen a b w = b (snd (a w))"
      by (cases "a w") (simp add: andThen_def)
    from assms(2) obtain ys where
      ys: "wire (snd (b (snd (a w)))) = wire (snd (a w)) @ map Wrote ys" "list_all P ys"
      unfolding writes_only_def by blast
    have "wire (snd (andThen a b w)) = wire w @ map Wrote (xs @ ys)"
      by (simp add: r xs ys)
    moreover have "list_all P (xs @ ys)"
      using xs ys by simp
    ultimately show ?thesis by blast
  next
    case (Some e)
    then have "andThen a b w = a w"
      by (cases "a w") (simp add: andThen_def)
    with xs show ?thesis by auto
  qed
qed

lemma writes_only_sleep: "writes_only P (sleep us)"
  unfolding writes_only_def
  by (intro allI exI [of _ "[]"]) (simp add: sleep_def)

lemma writes_only_done_ok: "writes_only P done_ok"
  unfolding writes_only_def
  by (intro allI exI [of _ "[]"]) (simp add: done_ok_def)

lemma writes_only_busWrite: "P b \<Longrightarrow> writes_only P (busWrite lcd b)"
  unfolding writes_only_def
  by (intro allI exI [of _ "[b]"]) (simp add: busWrite_wire)

lemma backlight_bit_of_frame:
  fixes bl rs n :: byte
  assumes "bl \<in> {lcdBacklightOff, lcdBacklightOn}" "rs \<in> {lcdRegisterCommand, lcdRegisterData}"
  shows "((rs OR lcdWriteMode OR lcdEnableBit OR bl) OR push_bit 4 n) AND 0x08 = bl"
    and "(((rs OR lcdWriteMode OR lcdEnableBit OR bl) OR push_bit 4 n) AND NOT lcdEnableBit)
           AND 0x08 = bl"
  using assms by (auto simp: lcd_consts intro!: byte_eqI simp: bit_simps)

lemma writes_only_send:
  assumes "backlight lcd \<in> {lcdBacklightOff, lcdBacklightOn}"
    and "rs \<in> {lcdRegisterCommand, lcdRegisterData}"
  shows "writes_only (\<lambda>b. b AND 0x08 = backlight lcd) (send lcd v rs)"
  unfolding send_def writeByte_def Let_def
  by (intro writes_only_andThen writes_only_busWrite writes_only_sleep
      backlight_bit_of_frame assms)

lemma writes_only_init:
  assumes "backlight lcd \<in> {lcdBacklightOff, lcdBacklightOn}"
  shows "writes_only (\<lambda>b. b AND 0x08 = backlight lcd) (init lcd)"
  unfolding init_def Clear_def sendCommand_def Let_def
  by (intro writes_only_andThen writes_only_send writes_only_sleep writes_only_done_ok assms)
     simp_all

lemma written_Wrote: "written (map Wrote bs) = bs"
  by (induction bs) simp_all

lemma written_since:
  "wire w' = wire w @ map Wrote bs \<Longrightarrow> written (since w w') = bs"
  by (simp add: since_def written_Wrote)

lemma i2c_Open_wire: "wire (snd (i2c_Open bus a w)) = wire w @ [Opened bus a]"
  by (simp add: i2c_Open_def)

lemma New_handle:
  assumes "fst (New bus a c r f bl w) = Inr lcd"
  shows "lcd = \<lparr>backlight = (if bl then lcdBacklightOn else lcdBacklightOff), cols = c,
                 rows = r, font = f, displayState = lcdDisplayOn\<rparr>"
    and "validateInputs c r f = None"
  using assms
  by (auto simp: New_def Let_def lcd_consts split: option.splits prod.splits if_splits)

lemma New_written:
  "list_all (\<lambda>b. b AND 0x08 = 0) (written (since w (snd (New bus a c r f bl w))))"
proof (cases "validateInputs c r f")
  case (Some e)
  then show ?thesis by (simp add: New_def since_def)
next
  case None
  let ?lcd0 = "\<lparr>backlight = 0, cols = c, rows = r, font = f,
                displayState = lcdDisplayOn OR lcdDisplayCursorOff OR lcdDisplayBlinkOff\<rparr>"
  let ?w1 = "snd (i2c_Open bus a w)"
  show ?thesis
  proof (cases "fst (i2c_Open bus a w)")
    case (Some e)
    then have "New bus a c r f bl w = (Inl e, ?w1)"
      using None by (cases "i2c_Open bus a w") (simp add: New_def)
    then show ?thesis
      by (simp add: since_def i2c_Open_wire)
  next
    case no: None
    have "writes_only (\<lambda>b. b AND 0x08 = backlight ?lcd0) (init ?lcd0)"
      by (rule writes_only_init) (simp add: lcd_consts)
    then obtain bs where bs: "wire (snd (init ?lcd0 ?w1)) = wire ?w1 @ map Wrote bs"
      "list_all (\<lambda>b. b AND 0x08 = 0) bs"
      unfolding writes_only_def by auto
    have "snd (New bus a c r f bl w) = snd (init ?lcd0 ?w1)"
      using None no
      by (cases "i2c_Open bus a w"; cases "init ?lcd0 ?w1")
         (auto simp: New_def Let_def split: option.splits)
    then have "since w (snd (New bus a c r f bl w)) = Opened bus a # map Wrote bs"
      by (simp add: since_def bs i2c_Open_wire)
    then show ?thesis
      using bs(2) by (simp add: written_Wrote)
  qed
qed

text \<open>
  C9. Whatever the arguments and whatever the transport does, every byte written
  during \<open>New\<close> has the backlight bit 0x08 clear, also when \<open>isBacklightOn\<close> is true:
  \<open>init\<close> runs on a handle whose backlight field is still zero. A handle that \<open>New\<close>
  returns with \<open>isBacklightOn\<close> true has the field 0x08, and from then on every byte
  that \<open>send\<close> writes through this handle has the bit set.
\<close>

theorem New_backlight_after_init:
  "(\<forall>b \<in> set (written (since w (snd (New bus a c r f isBacklightOn w)))). b AND 0x08 = 0) \<and>
   (\<forall>lcd. fst (New bus a c r f True w) = Inr lcd \<longrightarrow>
      backlight lcd = lcdBacklightOn \<and>
      (\<forall>val w2. \<forall>rs \<in> {lcdRegisterCommand, lcdRegisterData}.
         \<forall>b \<in> set (written (since w2 (snd (send lcd val rs w2)))). b AND 0x08 = 0x08))"
proof (intro conjI allI impI ballI)
  fix b assume "b \<in> set (written (since w (snd (New bus a c r f isBacklightOn w))))"
  with New_written [of w bus a c r f isBacklightOn] show "b AND 0x08 = 0"
    by (simp add: list_all_iff)
next
  fix lcd assume n: "fst (New bus a c r f True w) = Inr lcd"
  from New_handle(1) [OF n] show on: "backlight lcd = lcdBacklightOn" by simp
  fix val w2 rs b
  assume rs: "rs \<in> {lcdRegisterCommand, lcdRegisterData}"
    and b: "b \<in> set (written (since w2 (snd (send lcd val rs w2))))"
  have "writes_only (\<lambda>b. b AND 0x08 = backlight lcd) (send lcd val rs)"
    using rs by (intro writes_only_send) (simp_all add: on)
  then obtain bs where "wire (snd (send lcd val rs w2)) = wire w2 @ map Wrote bs"
    "list_all (\<lambda>b. b AND 0x08 = backlight lcd) bs"
    unfolding writes_only_def by blast
  with b show "b AND 0x08 = 0x08"
    by (simp add: written_since list_all_iff on lcdBacklightOn_def)
qed

theorem New_backlight_after_init_witness:
  "written (since fresh (snd (New DefaultDevice DefaultAddress 16 2 Font5x8 True fresh)))
     = [0x04, 0x00, 0x34, 0x30,  0x04, 0x00, 0x34, 0x30,
        0x04, 0x00, 0x34, 0x30,  0x04, 0x00, 0x24, 0x20,
        0x24, 0x20, 0x84, 0x80,  0x04, 0x00, 0xC4, 0xC0,
        0x04, 0x00, 0x64, 0x60,  0x04, 0x00, 0x14, 0x10] \<and>
   (0x34 :: byte) AND 0x08 = 0 \<and> (0xC4 :: byte) AND 0x08 = 0 \<and>
   fst (New DefaultDevice DefaultAddress 16 2 Font5x8 True fresh)
     = Inr \<lparr>backlight = 0x08, cols = 16, rows = 2, font = 0, displayState = 4\<rparr> \<and>
   lcdRegisterData \<in> {lcdRegisterCommand, lcdRegisterData} \<and>
   written (since fresh
     (snd (send \<lparr>backlight = 0x08, cols = 16, rows = 2, font = 0, displayState = 4\<rparr>
             0x48 lcdRegisterData fresh))) = [0x4D, 0x49, 0x8D, 0x89] \<and>
   (0x4D :: byte) AND 0x08 = 0x08 \<and> (0x49 :: byte) AND 0x08 = 0x08 \<and>
   (0x8D :: byte) AND 0x08 = 0x08 \<and> (0x89 :: byte) AND 0x08 = 0x08"
proof -
  note t = New_backlight_after_init [of fresh DefaultDevice DefaultAddress 16 2 Font5x8 True]
  have s: "written (since fresh
     (snd (send \<lparr>backlight = 0x08, cols = 16, rows = 2, font = 0, displayState = 4\<rparr>
             0x48 lcdRegisterData fresh))) = [0x4D, 0x49, 0x8D, 0x89]"
    by (simp add: send_quiet quiet_fresh since_def wire_emit wire_fresh written_Wrote
        byte_writes_def nibble_writes_def lcd_consts)
  have n: "written (since fresh (snd (New DefaultDevice DefaultAddress 16 2 Font5x8 True fresh)))
     = [0x04, 0x00, 0x34, 0x30,  0x04, 0x00, 0x34, 0x30,
        0x04, 0x00, 0x34, 0x30,  0x04, 0x00, 0x24, 0x20,
        0x24, 0x20, 0x84, 0x80,  0x04, 0x00, 0xC4, 0xC0,
        0x04, 0x00, 0x64, 0x60,  0x04, 0x00, 0x14, 0x10]"
    by (simp add: New_fresh_16x2 since_def wire_fresh written_Wrote)
  from t have init_clear:
    "\<forall>b \<in> set (written (since fresh (snd (New DefaultDevice DefaultAddress 16 2 Font5x8 True
                                              fresh)))).
      b AND 0x08 = 0"
    by (rule conjunct1)
  from t New_fresh_16x2(1) have later_set:
    "\<forall>b \<in> set (written (since fresh
        (snd (send \<lparr>backlight = 0x08, cols = 16, rows = 2, font = 0, displayState = 4\<rparr>
                0x48 lcdRegisterData fresh)))). b AND 0x08 = 0x08"
    by blast
  from init_clear [unfolded n] later_set [unfolded s] n s New_fresh_16x2(1) show ?thesis
    by simp
qed

end
